theory Spec2Isabelle
  imports Complex_Main "HOL-Library.AList" "HOL-Library.Multiset"
begin

section \<open>Library behaviour the pipeline relies on\<close>

text \<open>
  The forecasting pipeline is Python on top of pandas and statsmodels. The repository's
  own functions are embedded below, statement by statement; what the libraries do is
  either modelled here (calendar arithmetic and the frequency aliases \<open>D\<close>, \<open>W\<close>,
  \<open>W-MON\<close> .. \<open>W-SUN\<close>, \<open>MS\<close>, \<open>YS\<close>) or taken as a parameter (record \<open>env\<close>:
  cell parsing, the alias detection of \<open>pandas.infer_freq\<close>, the SARIMAX fit and its
  forecasts, the plotting backend, the ranges of every other alias and of a negative
  number of periods, the order in which an unstable sort leaves rows of equal dates).

  Timestamps are calendar days: the number of days since 1970-01-01 in the proleptic
  Gregorian calendar. This is the resolution of the dates the pipeline reports
  (\<open>strftime('%Y-%m-%d')\<close>); timestamps that carry a time of day are outside the model.
\<close>

type_synonym timestamp = int
type_synonym civil = "int \<times> int \<times> int"

definition days_from_civil :: "civil \<Rightarrow> timestamp" where
  "days_from_civil c =
     (case c of (y, m, d) \<Rightarrow>
        let y' = (if m \<le> 2 then y - 1 else y);
            era = y' div 400;
            yoe = y' - era * 400;
            doy = (153 * (if 2 < m then m - 3 else m + 9) + 2) div 5 + d - 1;
            doe = yoe * 365 + yoe div 4 - yoe div 100 + doy
        in era * 146097 + doe - 719468)"

definition civil_from_days :: "timestamp \<Rightarrow> civil" where
  "civil_from_days z =
     (let z' = z + 719468;
          era = z' div 146097;
          doe = z' mod 146097;
          yoe = (doe - doe div 1460 + doe div 36524 - doe div 146096) div 365;
          doy = doe - (365 * yoe + yoe div 4 - yoe div 100);
          mp = (5 * doy + 2) div 153;
          d = doy - (153 * mp + 2) div 5 + 1;
          m = (if mp < 10 then mp + 3 else mp - 9);
          y = yoe + era * 400
      in (if m \<le> 2 then y + 1 else y, m, d))"

text \<open>Day of the week as pandas counts it: Monday is 0, Sunday is 6.\<close>

definition weekday :: "timestamp \<Rightarrow> int" where
  "weekday t = (t + 3) mod 7"

definition is_leap :: "int \<Rightarrow> bool" where
  "is_leap y = (y mod 4 = 0 \<and> (y mod 100 \<noteq> 0 \<or> y mod 400 = 0))"

definition days_in_month :: "int \<Rightarrow> int \<Rightarrow> int" where
  "days_in_month y m =
     (if m = 2 then (if is_leap y then 29 else 28)
      else if m = 4 \<or> m = 6 \<or> m = 9 \<or> m = 11 then 30 else 31)"

text \<open>
  \<open>ts + pd.Timedelta(days=n)\<close>, \<open>ts + pd.DateOffset(months=n)\<close> and
  \<open>ts + pd.DateOffset(years=n)\<close>: the calendar offsets keep the day of the month and
  clip it to the length of the target month.
\<close>

definition add_days :: "int \<Rightarrow> timestamp \<Rightarrow> timestamp" where
  "add_days n t = t + n"

definition add_months :: "int \<Rightarrow> timestamp \<Rightarrow> timestamp" where
  "add_months n t =
     (case civil_from_days t of (y, m, d) \<Rightarrow>
        let k = y * 12 + (m - 1) + n;
            y' = k div 12;
            m' = k mod 12 + 1
        in days_from_civil (y', m', min d (days_in_month y' m')))"

definition add_years :: "int \<Rightarrow> timestamp \<Rightarrow> timestamp" where
  "add_years n t = add_months (12 * n) t"

subsection \<open>Frequency aliases and \<open>date_range\<close>\<close>

datatype offset = Day | Week int | MonthBegin | YearBegin

text \<open>
  The aliases modelled here. \<open>W\<close> is pandas' weekly frequency anchored on Sunday; the
  anchored forms are what \<open>infer_freq\<close> reports for a weekly index.
\<close>

definition alias_offset :: "string \<Rightarrow> offset option" where
  "alias_offset f =
     (if f = ''D'' then Some Day
      else if f = ''W'' \<or> f = ''W-SUN'' then Some (Week 6)
      else if f = ''W-MON'' then Some (Week 0)
      else if f = ''W-TUE'' then Some (Week 1)
      else if f = ''W-WED'' then Some (Week 2)
      else if f = ''W-THU'' then Some (Week 3)
      else if f = ''W-FRI'' then Some (Week 4)
      else if f = ''W-SAT'' then Some (Week 5)
      else if f = ''MS'' then Some MonthBegin
      else if f = ''YS'' then Some YearBegin
      else None)"

fun on_offset :: "offset \<Rightarrow> timestamp \<Rightarrow> bool" where
  "on_offset Day t = True"
| "on_offset (Week k) t = (weekday t = k)"
| "on_offset MonthBegin t = (case civil_from_days t of (y, m, d) \<Rightarrow> d = 1)"
| "on_offset YearBegin t = (case civil_from_days t of (y, m, d) \<Rightarrow> m = 1 \<and> d = 1)"

text \<open>The first timestamp on the offset at or after \<open>t\<close>, and the one after an on-offset \<open>t\<close>.\<close>

fun roll_forward :: "offset \<Rightarrow> timestamp \<Rightarrow> timestamp" where
  "roll_forward Day t = t"
| "roll_forward (Week k) t = t + (k - weekday t) mod 7"
| "roll_forward MonthBegin t =
     (case civil_from_days t of (y, m, d) \<Rightarrow>
        if d = 1 then t
        else if m = 12 then days_from_civil (y + 1, 1, 1)
        else days_from_civil (y, m + 1, 1))"
| "roll_forward YearBegin t =
     (case civil_from_days t of (y, m, d) \<Rightarrow>
        if m = 1 \<and> d = 1 then t else days_from_civil (y + 1, 1, 1))"

fun next_on_offset :: "offset \<Rightarrow> timestamp \<Rightarrow> timestamp" where
  "next_on_offset Day t = t + 1"
| "next_on_offset (Week k) t = t + 7"
| "next_on_offset MonthBegin t = roll_forward MonthBegin (t + 1)"
| "next_on_offset YearBegin t = roll_forward YearBegin (t + 1)"

fun range_from :: "offset \<Rightarrow> timestamp \<Rightarrow> nat \<Rightarrow> timestamp list" where
  "range_from off t 0 = []"
| "range_from off t (Suc n) = t # range_from off (next_on_offset off t) n"

section \<open>Data model\<close>

text \<open>
  A cell of the parsed CSV: missing (NaN), a number, a text, or (once the pipeline has
  written its \<open>Date\<close> column back into the frame) a timestamp. A frame is the ordered
  list of its named columns; \<open>read_csv\<close> makes the names distinct and the columns
  equally long. A series is the frame indexed by date with its single \<open>Value\<close> column.
\<close>

datatype cell = Missing | Num real | Text string | Stamp timestamp

type_synonym frame = "(string \<times> cell list) list"
type_synonym series = "(timestamp \<times> real) list"

datatype datestr = YMD int int int | YM int int

record model_spec =
  order :: "nat \<times> nat \<times> nat"
  seasonal_order :: "(nat \<times> nat \<times> nat \<times> nat) option"

record predictions =
  p_dates :: "datestr list"
  p_values :: "real list"
  lower_ci :: "real list"
  upper_ci :: "real list"

record historical =
  h_dates :: "datestr list"
  h_values :: "real list"

datatype model_info =
    DataInfo nat "datestr \<times> datestr" string string
  | CustomInfo nat string datestr string
  | BundledInfo nat "datestr option"
  | InfoError string

text \<open>
  The result dictionaries of the services: a key that a result does not carry is \<open>None\<close>.
  Of the model information only the counts, dates, alias and column names are kept; the
  mean and the standard deviation that the upload also reports are floating-point
  statistics that nothing below depends on.
\<close>

record response =
  success :: bool
  error :: "string option"
  r_predictions :: "predictions option"
  historical_data :: "historical option"
  r_model_info :: "model_info option"
  r_steps :: "int option"
  plot :: "string option"

definition failure :: "string \<Rightarrow> response" where
  "failure msg =
     \<lparr>success = False, error = Some msg, r_predictions = None, historical_data = None,
      r_model_info = None, r_steps = None, plot = None\<rparr>"

text \<open>
  What the libraries and the file system contribute. A left value is the message of the
  exception the call raises.
\<close>

record 'm env =
  read_csv :: "string \<Rightarrow> string + frame"
  parse_datetime :: "cell \<Rightarrow> timestamp option"
  parse_numeric :: "string \<Rightarrow> real option"
  detect_freq :: "timestamp list \<Rightarrow> string option"
  lib_range_between :: "string \<Rightarrow> timestamp \<Rightarrow> timestamp \<Rightarrow> string + timestamp list"
  lib_range_periods :: "string \<Rightarrow> timestamp \<Rightarrow> int \<Rightarrow> string + timestamp list"
  lib_sort_index :: "(timestamp \<times> real) list \<Rightarrow> (timestamp \<times> real) list"
  sarimax_fit :: "model_spec \<Rightarrow> series \<Rightarrow> string + 'm"
  forecast :: "'m \<Rightarrow> int \<Rightarrow> string + real list"
  conf_int :: "'m \<Rightarrow> int \<Rightarrow> string + (real \<times> real) list"
  savefig :: "historical \<times> predictions \<Rightarrow> string + string"

text \<open>The upload service's slots (\<open>CustomDataForecastService.__init__\<close>).\<close>

record 'm service =
  data :: "series option"
  model :: "'m option"
  model_info :: "model_info option"

definition init_service :: "'m service" where
  "init_service = \<lparr>data = None, model = None, model_info = None\<rparr>"

definition strftime_ymd :: "timestamp \<Rightarrow> datestr" where
  "strftime_ymd t = (case civil_from_days t of (y, m, d) \<Rightarrow> YMD y m d)"

definition strftime_ym :: "timestamp \<Rightarrow> datestr" where
  "strftime_ym t = (case civil_from_days t of (y, m, d) \<Rightarrow> YM y m)"

subsection \<open>pandas calls on frames and indexes\<close>

definition date_range_between ::
  "'m env \<Rightarrow> timestamp \<Rightarrow> timestamp \<Rightarrow> string \<Rightarrow> string + timestamp list" where
  "date_range_between env start stop f =
     (case alias_offset f of
        Some off \<Rightarrow> Inr (filter (on_offset off) [start..stop])
      | None \<Rightarrow> lib_range_between env f start stop)"

definition date_range_periods ::
  "'m env \<Rightarrow> timestamp \<Rightarrow> int \<Rightarrow> string \<Rightarrow> string + timestamp list" where
  "date_range_periods env start periods f =
     (if periods < 0 then lib_range_periods env f start periods
      else case alias_offset f of
             Some off \<Rightarrow> Inr (range_from off (roll_forward off start) (nat periods))
           | None \<Rightarrow> lib_range_periods env f start periods)"

text \<open>
  \<open>pd.infer_freq\<close> refuses an index of fewer than three timestamps; otherwise it reports
  the alias of an exactly regular spacing, or nothing.
\<close>

definition infer_freq :: "'m env \<Rightarrow> timestamp list \<Rightarrow> string + string option" where
  "infer_freq env idx =
     (if length idx < 3 then Inl ''Need at least 3 dates to infer frequency''
      else Inr (detect_freq env idx))"

text \<open>\<open>index.to_series().diff().dropna()\<close>: the gaps between consecutive timestamps.\<close>

definition diffs :: "timestamp list \<Rightarrow> int list" where
  "diffs idx = map (\<lambda>(a, b). b - a) (zip idx (tl idx))"

text \<open>
  \<open>time_diffs.median().days\<close>: the whole days of the median gap. With an even number
  of gaps the median is the mean of the two middle ones and \<open>.days\<close> drops the half day.
  The empty case is not reached: \<open>infer_freq\<close> has raised before.
\<close>

definition median_days :: "int list \<Rightarrow> int" where
  "median_days gaps =
     (let s = sort gaps; n = length s
      in if n = 0 then 0
         else if odd n then s ! (n div 2)
         else (s ! (n div 2 - 1) + s ! (n div 2)) div 2)"

text \<open>
  \<open>df.asfreq(freq, method='ffill')\<close>: an empty frame stays empty; otherwise the frame is
  reindexed onto \<open>date_range(index.min(), index.max(), freq=freq)\<close>, each new timestamp
  taking the value of the last row at or before it. Reindexing needs a duplicate-free index.
\<close>

definition pad_value :: "timestamp \<times> real \<Rightarrow> series \<Rightarrow> timestamp \<Rightarrow> real" where
  "pad_value first rest t = foldl (\<lambda>acc (ti, vi). if ti \<le> t then vi else acc) (snd first) rest"

fun asfreq :: "'m env \<Rightarrow> string \<Rightarrow> series \<Rightarrow> string + series" where
  "asfreq env f [] = Inr []"
| "asfreq env f (first # rest) =
     (let idx = map fst (first # rest)
      in case date_range_between env (foldl min (fst first) (map fst rest))
                (foldl max (fst first) (map fst rest)) f of
           Inl e \<Rightarrow> Inl e
         | Inr dti \<Rightarrow>
             if \<not> distinct idx then Inl ''cannot reindex on an axis with duplicate labels''
             else Inr (map (\<lambda>t. (t, pad_value first rest t)) dti))"

section \<open>The upload service (\<open>custom_data_service.py\<close>)\<close>

subsection \<open>\<open>validate_and_process_csv\<close>\<close>

text \<open>
  \<open>col.lower()\<close> on the ASCII letters; the five keywords are ASCII, and no other
  byte lowers to one of their letters.
\<close>

definition lower_char :: "char \<Rightarrow> char" where
  "lower_char c =
     (let n = (of_char c :: nat)
      in if 65 \<le> n \<and> n \<le> 90 then char_of (n + 32) else c)"

definition lower :: "string \<Rightarrow> string" where
  "lower s = map lower_char s"

text \<open>\<open>keyword in s\<close>: the keyword occurs as a substring.\<close>

fun contains :: "string \<Rightarrow> string \<Rightarrow> bool" where
  "contains kw [] = (kw = [])"
| "contains kw (c # s) = (take (length kw) (c # s) = kw \<or> contains kw s)"

definition has_time_keyword :: "string \<Rightarrow> bool" where
  "has_time_keyword col =
     list_ex (\<lambda>keyword. contains keyword (lower col))
       [''date'', ''time'', ''month'', ''year'', ''day'']"

text \<open>
  \<open>pd.api.types.is_numeric_dtype(data[col])\<close>: \<open>read_csv\<close> gives a column a numeric
  dtype when every cell that is present is a number.
\<close>

definition is_numeric_dtype :: "cell list \<Rightarrow> bool" where
  "is_numeric_dtype cells =
     list_all (\<lambda>c. case c of Missing \<Rightarrow> True | Num x \<Rightarrow> True | Text s \<Rightarrow> False | Stamp t \<Rightarrow> False) cells"

text \<open>
  The loop over \<open>data.columns\<close> (lines 55 to 62), carrying \<open>date_col\<close> and
  \<open>value_col\<close>; then the two fallbacks (lines 65 to 68). The frame has at least two
  columns when the loop is reached.
\<close>

fun scan_columns ::
  "frame \<Rightarrow> string option \<times> string option \<Rightarrow> string option \<times> string option" where
  "scan_columns [] acc = acc"
| "scan_columns ((col, cells) # rest) (date_col, value_col) =
     scan_columns rest
       (if has_time_keyword col then (Some col, value_col)
        else if is_numeric_dtype cells then
          (if value_col = None then (date_col, Some col) else (date_col, value_col))
        else (date_col, value_col))"

definition identify_columns :: "frame \<Rightarrow> string \<times> string" where
  "identify_columns df =
     (case scan_columns df (None, None) of
        (date_col, value_col) \<Rightarrow>
          (case date_col of None \<Rightarrow> fst (df ! 0) | Some c \<Rightarrow> c,
           case value_col of None \<Rightarrow> fst (df ! 1) | Some c \<Rightarrow> c))"

text \<open>
  \<open>pd.to_datetime\<close> and \<open>pd.to_numeric\<close> on a column: a missing cell stays missing,
  a cell that cannot be converted raises. A timestamp column read as numbers is its
  nanoseconds since the epoch.
\<close>

definition to_datetime :: "'m env \<Rightarrow> cell list \<Rightarrow> timestamp option list option" where
  "to_datetime env cells =
     those (map (\<lambda>c. case c of
                        Missing \<Rightarrow> Some None
                      | Stamp t \<Rightarrow> Some (Some t)
                      | _ \<Rightarrow> map_option Some (parse_datetime env c)) cells)"

definition to_numeric :: "'m env \<Rightarrow> cell list \<Rightarrow> real option list option" where
  "to_numeric env cells =
     those (map (\<lambda>c. case c of
                        Missing \<Rightarrow> Some None
                      | Num x \<Rightarrow> Some (Some x)
                      | Text s \<Rightarrow> map_option Some (parse_numeric env s)
                      | Stamp t \<Rightarrow> Some (Some (of_int (t * 86400000000000)))) cells)"

definition shape0 :: "frame \<Rightarrow> nat" where
  "shape0 df = (case df of [] \<Rightarrow> 0 | (col, cells) # rest \<Rightarrow> length cells)"

definition shape1 :: "frame \<Rightarrow> nat" where
  "shape1 df = length df"

text \<open>
  \<open>data[['Date', 'Value']].dropna()\<close>, then \<open>set_index('Date').sort_index()\<close>. The
  default sort of pandas is not stable: rows of distinct dates have one sorted order,
  rows of equal dates come in the order the library leaves them in (any order that
  sorts the rows).
\<close>

definition dropna :: "(timestamp option \<times> real option) list \<Rightarrow> series" where
  "dropna rows =
     concat (map (\<lambda>r. case r of (Some t, Some v) \<Rightarrow> [(t, v)] | _ \<Rightarrow> []) rows)"

definition sort_index :: "'m env \<Rightarrow> series \<Rightarrow> series" where
  "sort_index env d =
     (if distinct (map fst d) then sort_key fst d
      else let r = lib_sort_index env d
           in if mset r = mset d \<and> sorted (map fst r) then r else sort_key fst d)"

text \<open>
  The two conversions of lines 71 to 85, each under its bare \<open>except\<close>. The \<open>Date\<close>
  column is written into the frame before the value column is read from it.
\<close>

definition convert_columns ::
  "'m env \<Rightarrow> frame \<Rightarrow> string \<Rightarrow> string \<Rightarrow> string + (timestamp option \<times> real option) list" where
  "convert_columns env df date_col value_col =
     (case Option.bind (map_of df date_col) (to_datetime env) of
        None \<Rightarrow> Inl (''Impossible de convertir la colonne '' @ date_col @ '' en date'')
      | Some ds \<Rightarrow>
          let df' = AList.update ''Date'' (map (\<lambda>d. case d of None \<Rightarrow> Missing | Some t \<Rightarrow> Stamp t) ds) df
          in case Option.bind (map_of df' value_col) (to_numeric env) of
               None \<Rightarrow>
                 Inl (''Impossible de convertir la colonne '' @ value_col @ '' en valeurs numeriques'')
             | Some vs \<Rightarrow> Inr (zip ds vs))"

definition validate_and_process_csv ::
  "'m env \<Rightarrow> 'm service \<Rightarrow> string \<Rightarrow> response \<times> 'm service" where
  "validate_and_process_csv env self csv_content =
     (case read_csv env csv_content of
        Inl e \<Rightarrow> (failure (''Erreur lors du traitement du fichier: '' @ e), self)
      | Inr df \<Rightarrow>
          if shape1 df < 2 then
            (failure ''Le fichier CSV doit contenir au moins 2 colonnes (Date, Valeur)'', self)
          else if shape0 df < 10 then
            (failure ''Le fichier CSV doit contenir au moins 10 lignes de donnees'', self)
          else
            (case identify_columns df of
               (date_col, value_col) \<Rightarrow>
                 (case convert_columns env df date_col value_col of
                    Inl msg \<Rightarrow> (failure msg, self)
                  | Inr rows \<Rightarrow>
                      let d = sort_index env (dropna rows)
                      in if length d < 10 then
                           (failure ''Pas assez de donnees valides apres nettoyage (minimum 10 points)'',
                            self)
                         else
                           let info = DataInfo (length d)
                                        (strftime_ymd (fst (hd d)), strftime_ymd (fst (last d)))
                                        date_col value_col
                           in (\<lparr>success = True, error = None, r_predictions = None,
                                historical_data = None, r_model_info = Some info,
                                r_steps = None, plot = None\<rparr>,
                               self\<lparr>data := Some d, model_info := Some info\<rparr>))))"

subsection \<open>\<open>train_model_and_predict\<close>\<close>

text \<open>Lines 138 to 151: the inferred alias if there is one, else the guess from the median gap.\<close>

definition guess_freq :: "int \<Rightarrow> string" where
  "guess_freq median_diff_days =
     (if median_diff_days \<le> 1 then ''D''
      else if median_diff_days \<le> 7 then ''W''
      else if median_diff_days \<le> 31 then ''MS''
      else ''YS'')"

definition determine_freq :: "'m env \<Rightarrow> timestamp list \<Rightarrow> string + string" where
  "determine_freq env idx =
     (case infer_freq env idx of
        Inl e \<Rightarrow> Inl e
      | Inr (Some freq) \<Rightarrow> Inr freq
      | Inr None \<Rightarrow> Inr (guess_freq (median_days (diffs idx))))"

text \<open>Lines 159 to 166: the orders handed to \<open>SARIMAX\<close>.\<close>

definition select_model :: "nat \<Rightarrow> model_spec" where
  "select_model n =
     (if 24 \<le> n then
        let seasonal_periods = min 12 (n div 2)
        in \<lparr>order = (1, 1, 1), seasonal_order = Some (1, 1, 1, seasonal_periods)\<rparr>
      else \<lparr>order = (1, 1, 1), seasonal_order = None\<rparr>)"

text \<open>Lines 176 to 184: the future dates, by the alias.\<close>

definition future_dates ::
  "'m env \<Rightarrow> string \<Rightarrow> timestamp \<Rightarrow> int \<Rightarrow> string + timestamp list" where
  "future_dates env freq last_date steps =
     (if freq = ''D'' then date_range_periods env (add_days 1 last_date) steps freq
      else if freq = ''W'' then date_range_periods env (add_days 7 last_date) steps freq
      else if freq = ''MS'' then date_range_periods env (add_months 1 last_date) steps freq
      else date_range_periods env (add_years 1 last_date) steps freq)"

text \<open>
  The inner \<open>try\<close> block (lines 157 to 215) after the fit, on the reindexed series \<open>d\<close>
  and the fitted model \<open>m\<close>: a left value is the exception it raises.
\<close>

definition forecast_block ::
  "'m env \<Rightarrow> 'm service \<Rightarrow> string \<Rightarrow> series \<Rightarrow> 'm \<Rightarrow> int \<Rightarrow> string + response" where
  "forecast_block env self freq d m steps =
     (case forecast env m steps of
        Inl e \<Rightarrow> Inl e
      | Inr fc \<Rightarrow>
          (case conf_int env m steps of
             Inl e \<Rightarrow> Inl e
           | Inr forecast_ci \<Rightarrow>
               (case d of
                  [] \<Rightarrow> Inl ''index -1 is out of bounds for axis 0 with size 0''
                | row # rows \<Rightarrow>
                    let last_date = fst (last (row # rows))
                    in case future_dates env freq last_date steps of
                         Inl e \<Rightarrow> Inl e
                       | Inr fd \<Rightarrow>
                           Inr \<lparr>success = True, error = None,
                                r_predictions =
                                  Some \<lparr>p_dates = map strftime_ymd fd, p_values = fc,
                                        lower_ci = map fst forecast_ci,
                                        upper_ci = map snd forecast_ci\<rparr>,
                                historical_data =
                                  Some \<lparr>h_dates = map (strftime_ymd \<circ> fst) d,
                                        h_values = map snd d\<rparr>,
                                r_model_info =
                                  Some (CustomInfo (length d) freq (strftime_ymd last_date)
                                          (case model_info self of
                                             Some (DataInfo n r dc vc) \<Rightarrow> vc
                                           | _ \<Rightarrow> ''Value'')),
                                r_steps = Some steps, plot = None\<rparr>)))"

definition train_model_and_predict ::
  "'m env \<Rightarrow> 'm service \<Rightarrow> int \<Rightarrow> response \<times> 'm service" where
  "train_model_and_predict env self steps =
     (case data self of
        None \<Rightarrow>
          (failure ''Aucune donnee chargee. Veuillez d abord uploader un fichier CSV.'', self)
      | Some d0 \<Rightarrow>
          (case determine_freq env (map fst d0) of
             Inl e \<Rightarrow> (failure (''Erreur lors de la prediction: '' @ e), self)
           | Inr freq \<Rightarrow>
               (case asfreq env freq d0 of
                  Inl e \<Rightarrow> (failure (''Erreur lors de la prediction: '' @ e), self)
                | Inr d \<Rightarrow>
                    let self1 = self\<lparr>data := Some d\<rparr>
                    in case sarimax_fit env (select_model (length d)) d of
                         Inl e \<Rightarrow>
                           (failure (''Erreur lors de l entrainement du modele: '' @ e), self1)
                       | Inr model_fit \<Rightarrow>
                           let self2 = self1\<lparr>model := Some model_fit\<rparr>
                           in case forecast_block env self2 freq d model_fit steps of
                                Inl e \<Rightarrow>
                                  (failure (''Erreur lors de l entrainement du modele: '' @ e),
                                   self2)
                              | Inr result \<Rightarrow> (result, self2))))"

subsection \<open>\<open>generate_plot\<close> and the route \<open>/predict-custom-data\<close> of \<open>main.py\<close>\<close>

definition generate_plot :: "'m env \<Rightarrow> predictions \<Rightarrow> historical \<Rightarrow> string" where
  "generate_plot env preds hist =
     (case savefig env (hist, preds) of Inl e \<Rightarrow> [] | Inr img_string \<Rightarrow> img_string)"

datatype 'a http = HTTPException nat string | TemplateResponse 'a

definition predict_custom_data ::
  "'m env \<Rightarrow> 'm service \<Rightarrow> int \<Rightarrow> response http \<times> 'm service" where
  "predict_custom_data env custom_data_service steps =
     (if steps < 1 \<or> 100 < steps then
        (HTTPException 500 ''400: Le nombre de periodes doit etre entre 1 et 100'',
         custom_data_service)
      else
        case train_model_and_predict env custom_data_service steps of
          (result, svc) \<Rightarrow>
            if \<not> success result then
              (HTTPException 500
                 (''500: '' @ (case error result of None \<Rightarrow> ''Erreur inconnue'' | Some e \<Rightarrow> e)),
               svc)
            else
              (case (r_predictions result, historical_data result) of
                 (Some preds, Some hist) \<Rightarrow>
                   (TemplateResponse (result\<lparr>plot := Some (generate_plot env preds hist)\<rparr>), svc)
               | _ \<Rightarrow> (HTTPException 500 ''predictions'', svc)))"

section \<open>The bundled model (\<open>arima_model.py\<close>, \<open>forecast_service.py\<close>)\<close>

record 'm arima =
  arima_model :: "'m option"
  arima_data :: "series option"

text \<open>
  \<open>load_model\<close>: the outcome of unpickling each of the two files is an input; a left
  value is the exception (\<open>FileNotFoundError\<close> or any other). Both handlers clear both
  slots.
\<close>

datatype load_error = FileNotFoundError | OtherException string

definition load_model :: "load_error + 'm \<Rightarrow> load_error + series \<Rightarrow> 'm arima" where
  "load_model model_file data_file =
     (case model_file of
        Inl e \<Rightarrow> \<lparr>arima_model = None, arima_data = None\<rparr>
      | Inr m \<Rightarrow>
          (case data_file of
             Inl e \<Rightarrow> \<lparr>arima_model = None, arima_data = None\<rparr>
           | Inr d \<Rightarrow> \<lparr>arima_model = Some m, arima_data = Some d\<rparr>))"

text \<open>
  \<open>predict\<close> assigns no attribute: the object it returns is the one it was called on.
  A left value is the exception it raises.
\<close>

definition predict :: "'m env \<Rightarrow> 'm arima \<Rightarrow> int \<Rightarrow> (string + predictions) \<times> 'm arima" where
  "predict env self steps =
     (case arima_model self of
        None \<Rightarrow> (Inl ''Modele non charge'', self)
      | Some m \<Rightarrow>
          (case forecast env m steps of
             Inl e \<Rightarrow> (Inl e, self)
           | Inr fc \<Rightarrow>
               (case conf_int env m steps of
                  Inl e \<Rightarrow> (Inl e, self)
                | Inr forecast_ci \<Rightarrow>
                    (case arima_data self of
                       None \<Rightarrow> (Inl ''NoneType object has no attribute index'', self)
                     | Some [] \<Rightarrow> (Inl ''index -1 is out of bounds for axis 0 with size 0'', self)
                     | Some (row # rows) \<Rightarrow>
                         let last_date = fst (last (row # rows))
                         in case date_range_periods env (add_months 1 last_date) steps ''MS'' of
                              Inl e \<Rightarrow> (Inl e, self)
                            | Inr fd \<Rightarrow>
                                (Inr \<lparr>p_dates = map strftime_ym fd, p_values = fc,
                                      lower_ci = map fst forecast_ci,
                                      upper_ci = map snd forecast_ci\<rparr>, self)))))"

definition get_historical_data :: "'m arima \<Rightarrow> string + historical" where
  "get_historical_data self =
     (case arima_data self of
        None \<Rightarrow> Inl ''Donnees non chargees''
      | Some d \<Rightarrow> Inr \<lparr>h_dates = map (strftime_ym \<circ> fst) d, h_values = map snd d\<rparr>)"

definition get_model_info :: "'m arima \<Rightarrow> string + model_info" where
  "get_model_info self =
     (case arima_model self of
        None \<Rightarrow> Inr (InfoError ''Modele non charge'')
      | Some m \<Rightarrow>
          (case arima_data self of
             None \<Rightarrow> Inr (BundledInfo 0 None)
           | Some [] \<Rightarrow> Inl ''index -1 is out of bounds for axis 0 with size 0''
           | Some (row # rows) \<Rightarrow>
               Inr (BundledInfo (length (row # rows))
                      (Some (strftime_ym (fst (last (row # rows))))))))"

definition arima_generate_plot :: "'m env \<Rightarrow> 'm arima \<Rightarrow> predictions \<Rightarrow> string + string" where
  "arima_generate_plot env self preds =
     (case arima_data self of
        None \<Rightarrow> Inl ''Donnees non chargees''
      | Some d \<Rightarrow>
          savefig env (\<lparr>h_dates = map (strftime_ymd \<circ> fst) d, h_values = map snd d\<rparr>, preds))"

text \<open>\<open>ForecastService\<close>: its one attribute is the \<open>ARIMAModel\<close>.\<close>

definition get_forecast :: "'m env \<Rightarrow> 'm arima \<Rightarrow> int \<Rightarrow> response \<times> 'm arima" where
  "get_forecast env self steps =
     (case predict env self steps of
        (Inl e, self') \<Rightarrow> (failure e, self')
      | (Inr preds, self') \<Rightarrow>
          (case get_historical_data self' of
             Inl e \<Rightarrow> (failure e, self')
           | Inr hist \<Rightarrow>
               (case get_model_info self' of
                  Inl e \<Rightarrow> (failure e, self')
                | Inr info \<Rightarrow>
                    (\<lparr>success = True, error = None, r_predictions = Some preds,
                      historical_data = Some hist, r_model_info = Some info,
                      r_steps = Some steps, plot = None\<rparr>, self'))))"

definition get_forecast_with_plot :: "'m env \<Rightarrow> 'm arima \<Rightarrow> int \<Rightarrow> response \<times> 'm arima" where
  "get_forecast_with_plot env self steps =
     (case get_forecast env self steps of
        (result, self') \<Rightarrow>
          if success result then
            (case r_predictions result of
               None \<Rightarrow> (failure ''predictions'', self')
             | Some preds \<Rightarrow>
                 (case arima_generate_plot env self' preds of
                    Inl e \<Rightarrow> (failure e, self')
                  | Inr plot_base64 \<Rightarrow> (result\<lparr>plot := Some plot_base64\<rparr>, self')))
          else (result, self'))"

record status =
  status_success :: bool
  model_loaded :: bool
  status_info :: "model_info option"
  status_error :: "string option"

definition get_model_status :: "'m arima \<Rightarrow> status" where
  "get_model_status self =
     (case get_model_info self of
        Inr info \<Rightarrow>
          \<lparr>status_success = True, model_loaded = (arima_model self \<noteq> None),
           status_info = Some info, status_error = None\<rparr>
      | Inl e \<Rightarrow>
          \<lparr>status_success = False, model_loaded = False, status_info = None,
           status_error = Some e\<rparr>)"

section \<open>Concrete inputs\<close>

text \<open>
  A library environment for the concrete runs below: nothing is detected, parsed or
  read unless a run says so, every fit succeeds, and the forecasts are constant.
\<close>

definition stub_env :: "unit env" where
  "stub_env =
     \<lparr>read_csv = (\<lambda>b. Inl ''No columns to parse from file''),
      parse_datetime = (\<lambda>c. None),
      parse_numeric = (\<lambda>s. None),
      detect_freq = (\<lambda>idx. None),
      lib_range_between = (\<lambda>f a b. Inl ''Invalid frequency''),
      lib_range_periods = (\<lambda>f a n. Inl ''Invalid frequency''),
      lib_sort_index = sort_key fst,
      sarimax_fit = (\<lambda>spec d. Inr ()),
      forecast = (\<lambda>m n. Inr (replicate (nat n) 0)),
      conf_int = (\<lambda>m n. Inr (replicate (nat n) (0, 0))),
      savefig = (\<lambda>chart. Inr ''png'')\<rparr>"

text \<open>
  A daily series with one day missing, and a fitter that raises.
\<close>

definition gappy_days :: series where
  "gappy_days =
     [(0, 1), (1, 2), (2, 3), (4, 5), (5, 6), (6, 7), (7, 8), (8, 9), (9, 10), (10, 11)]"

definition failing_fit_env :: "unit env" where
  "failing_fit_env = stub_env\<lparr>sarimax_fit := \<lambda>spec d. Inl ''LU decomposition error.''\<rparr>"

text \<open>
  An upload of ten consecutive Mondays, 2024-01-01 to 2024-03-04. On such an index
  \<open>pd.infer_freq\<close> reports the anchored alias \<open>W-MON\<close>.
\<close>

definition mondays :: "(string \<times> timestamp) list" where
  "mondays =
     [(''2024-01-01'', 19723), (''2024-01-08'', 19730), (''2024-01-15'', 19737),
      (''2024-01-22'', 19744), (''2024-01-29'', 19751), (''2024-02-05'', 19758),
      (''2024-02-12'', 19765), (''2024-02-19'', 19772), (''2024-02-26'', 19779),
      (''2024-03-04'', 19786)]"

definition weekly_frame :: frame where
  "weekly_frame =
     [(''Date'', map (Text \<circ> fst) mondays),
      (''Sales'', map Num [10, 12, 11, 13, 12, 14, 13, 15, 14, 16])]"

definition weekly_env :: "unit env" where
  "weekly_env =
     stub_env\<lparr>read_csv := \<lambda>b. Inr weekly_frame,
               parse_datetime := \<lambda>c. case c of Text s \<Rightarrow> map_of mondays s | _ \<Rightarrow> None,
               detect_freq := \<lambda>idx. if idx = map snd mondays then Some ''W-MON'' else None\<rparr>"

definition monday_series :: series where
  "monday_series =
     [(19723, 10), (19730, 12), (19737, 11), (19744, 13), (19751, 12),
      (19758, 14), (19765, 13), (19772, 15), (19779, 14), (19786, 16)]"

definition monday_service :: "unit service" where
  "monday_service =
     \<lparr>data = Some monday_series, model = None,
      model_info = Some (DataInfo 10 (YMD 2024 1 1, YMD 2024 3 4) ''Date'' ''Sales'')\<rparr>"

text \<open>
  The same upload with the value column named \<open>Holiday_Sales\<close>; with one column only;
  with eight rows only; and with two values missing.
\<close>

definition holiday_frame :: frame where
  "holiday_frame =
     [(''Date'', map (Text \<circ> fst) mondays),
      (''Holiday_Sales'', map Num [10, 12, 11, 13, 12, 14, 13, 15, 14, 16])]"

definition one_column_frame :: frame where
  "one_column_frame = [(''Date'', map (Text \<circ> fst) mondays)]"

definition eight_row_frame :: frame where
  "eight_row_frame = map (\<lambda>(col, cells). (col, take 8 cells)) weekly_frame"

definition sparse_frame :: frame where
  "sparse_frame =
     [(''Date'', map (Text \<circ> fst) mondays),
      (''Sales'', [Num 10, Missing, Num 11, Num 13, Num 12, Missing, Num 13, Num 15, Num 14, Num 16])]"

text \<open>
  The bundled facade on the last three months of the passengers data (1960-10-01,
  1960-11-01, 1960-12-01), and a plotting backend that raises.
\<close>

definition render_fail_env :: "unit env" where
  "render_fail_env = stub_env\<lparr>savefig := \<lambda>chart. Inl ''Failed to allocate bitmap''\<rparr>"

definition bundled :: "unit arima" where
  "bundled = \<lparr>arima_model = Some (), arima_data = Some [(-3379, 461), (-3348, 390), (-3318, 432)]\<rparr>"

text \<open>
  A daily series of 23 rows with one day missing, its regularization of 24 rows, and a
  fitter that accepts exactly one call: the regularized series with the orders
  (1,1,1) and (1,1,1,12).
\<close>

definition daily_with_gap :: series where
  "daily_with_gap =
     [(0, 1), (1, 2), (2, 3), (3, 4), (4, 5), (6, 7), (7, 8), (8, 9), (9, 10), (10, 11),
      (11, 12), (12, 13), (13, 14), (14, 15), (15, 16), (16, 17), (17, 18), (18, 19),
      (19, 20), (20, 21), (21, 22), (22, 23), (23, 24)]"

definition regular24 :: series where
  "regular24 =
     [(0, 1), (1, 2), (2, 3), (3, 4), (4, 5), (5, 5), (6, 7), (7, 8), (8, 9), (9, 10),
      (10, 11), (11, 12), (12, 13), (13, 14), (14, 15), (15, 16), (16, 17), (17, 18),
      (18, 19), (19, 20), (20, 21), (21, 22), (22, 23), (23, 24)]"

definition picky_fit_env :: "unit env" where
  "picky_fit_env =
     stub_env\<lparr>sarimax_fit := \<lambda>spec d.
       if spec = \<lparr>order = (1, 1, 1), seasonal_order = Some (1, 1, 1, 12)\<rparr> \<and> d = regular24
       then Inr () else Inl ''unexpected call''\<rparr>"






text \<open>The weekly upload with a numeric \<open>Year\<close> column before the \<open>Sales\<close> column.\<close>

definition year_frame :: frame where
  "year_frame =
     [(''Date'', map (Text \<circ> fst) mondays),
      (''Year'', map Num [2024, 2024, 2024, 2024, 2024, 2024, 2024, 2024, 2024, 2024]),
      (''Sales'', map Num [10, 12, 11, 13, 12, 14, 13, 15, 14, 16])]"

section \<open>The upload pipeline, step by step\<close>

lemma forecast_block_success:
  assumes "forecast env m steps = Inr fc"
    and "conf_int env m steps = Inr ci"
    and "d \<noteq> []"
    and "future_dates env freq (fst (last d)) steps = Inr fd"
  shows "forecast_block env self freq d m steps =
     Inr \<lparr>success = True, error = None,
          r_predictions =
            Some \<lparr>p_dates = map strftime_ymd fd, p_values = fc,
                  lower_ci = map fst ci, upper_ci = map snd ci\<rparr>,
          historical_data =
            Some \<lparr>h_dates = map (strftime_ymd \<circ> fst) d, h_values = map snd d\<rparr>,
          r_model_info =
            Some (CustomInfo (length d) freq (strftime_ymd (fst (last d)))
                    (case model_info self of Some (DataInfo n r dc vc) \<Rightarrow> vc | _ \<Rightarrow> ''Value'')),
          r_steps = Some steps, plot = None\<rparr>"
  using assms by (cases d) (simp_all add: forecast_block_def)

lemma train_success:
  assumes "data self = Some d0"
    and "determine_freq env (map fst d0) = Inr freq"
    and "asfreq env freq d0 = Inr d"
    and "sarimax_fit env (select_model (length d)) d = Inr m"
    and "forecast_block env (self\<lparr>data := Some d, model := Some m\<rparr>) freq d m steps = Inr result"
  shows "train_model_and_predict env self steps = (result, self\<lparr>data := Some d, model := Some m\<rparr>)"
  using assms by (simp add: train_model_and_predict_def)

section \<open>Model selection\<close>

lemma select_model_eq:
  "select_model n =
     \<lparr>order = (1, 1, 1),
      seasonal_order = (if 24 \<le> n then Some (1, 1, 1, min 12 (n div 2)) else None)\<rparr>"
  by (simp add: select_model_def)

text \<open>
  Claim C2. Let \<open>d\<close> be the regularized series, the stored series reindexed on the
  inferred frequency. The outcome of \<open>train_model_and_predict\<close> is the outcome of one fit,
  of \<open>d\<close>, with the non-seasonal order (1,1,1) and, when \<open>d\<close> has at least 24
  observations, the seasonal order (1,1,1,min(12, len(d) div 2)), with no seasonal order
  when \<open>d\<close> has fewer than 24: if that fit raises, the call fails with the fitter's
  message; if it returns a fitted model, that model is stored and forecast from.
\<close>

theorem fit_on_regularized_series_with_selected_orders:
  assumes "data self = Some d0"
    and "determine_freq env (map fst d0) = Inr freq"
    and "asfreq env freq d0 = Inr d"
  shows "train_model_and_predict env self steps =
     (case sarimax_fit env
             \<lparr>order = (1, 1, 1),
              seasonal_order =
                (if 24 \<le> length d then Some (1, 1, 1, min 12 (length d div 2)) else None)\<rparr> d of
        Inl e \<Rightarrow>
          (failure (''Erreur lors de l entrainement du modele: '' @ e), self\<lparr>data := Some d\<rparr>)
      | Inr m \<Rightarrow>
          (case forecast_block env (self\<lparr>data := Some d, model := Some m\<rparr>) freq d m steps of
             Inl e \<Rightarrow>
               (failure (''Erreur lors de l entrainement du modele: '' @ e),
                self\<lparr>data := Some d, model := Some m\<rparr>)
           | Inr result \<Rightarrow> (result, self\<lparr>data := Some d, model := Some m\<rparr>)))"
  using assms
  by (simp add: train_model_and_predict_def select_model_eq Let_def cong: sum.case_cong)

theorem fit_on_regularized_series_with_selected_orders_witness:
  "success (fst (train_model_and_predict picky_fit_env (init_service\<lparr>data := Some daily_with_gap\<rparr>) 2)) \<and>
   snd (train_model_and_predict picky_fit_env (init_service\<lparr>data := Some daily_with_gap\<rparr>) 2) =
     init_service\<lparr>data := Some regular24, model := Some ()\<rparr> \<and>
   length daily_with_gap = 23 \<and> length regular24 = 24"
proof -
  let ?svc = "init_service\<lparr>data := Some daily_with_gap\<rparr> :: unit service"
  have h1: "data ?svc = Some daily_with_gap" by simp
  have h2: "determine_freq picky_fit_env (map fst daily_with_gap) = Inr ''D''"
    by code_simp
  have h3: "asfreq picky_fit_env ''D'' daily_with_gap = Inr regular24"
    by code_simp
  have len: "length daily_with_gap = 23" "length regular24 = 24"
    by (simp_all add: daily_with_gap_def regular24_def)
  have fit: "sarimax_fit picky_fit_env
               \<lparr>order = (Suc 0, Suc 0, Suc 0),
                seasonal_order = Some (Suc 0, Suc 0, Suc 0, 12)\<rparr> regular24 = Inr ()"
    by (simp add: picky_fit_env_def)
  have fc: "forecast picky_fit_env () 2 = Inr [0, 0]" by code_simp
  have ci: "conf_int picky_fit_env () 2 = Inr [(0, 0), (0, 0)]" by code_simp
  have ne: "regular24 \<noteq> []" by (simp add: regular24_def)
  have fd: "future_dates picky_fit_env ''D'' (fst (last regular24)) 2 = Inr [24, 25]"
    by code_simp
  note block = forecast_block_success [OF fc ci ne fd,
      of "init_service\<lparr>data := Some regular24, model := Some ()\<rparr>"]
  show ?thesis
    using fit_on_regularized_series_with_selected_orders [OF h1 h2 h3, of 2]
    by (simp add: len fit block)
qed

section \<open>Forecast dates\<close>

text \<open>
  Where the alias is one that lines 177 to 182 test, the dates are as many as the steps
  and they continue the history: day by day after the last date for \<open>D\<close>, week by week
  after a last date that is a Sunday (as every date of a series reindexed on \<open>W\<close> is)
  for \<open>W\<close>.
\<close>

lemma length_range_from: "length (range_from off t n) = n"
  by (induction n arbitrary: t) simp_all

lemma range_from_day: "range_from Day t n = map (\<lambda>i. t + int i) [0..<n]"
proof (induction n arbitrary: t)
  case 0
  then show ?case by simp
next
  case (Suc n)
  have "map (\<lambda>i. t + int i) [0..<Suc n] = t # map (\<lambda>i. t + int (Suc i)) [0..<n]"
    by (simp add: upt_conv_Cons map_Suc_upt [symmetric] del: upt_Suc)
  also have "\<dots> = t # map (\<lambda>i. (t + 1) + int i) [0..<n]"
    by simp
  finally show ?case
    using Suc.IH [of "t + 1"] by simp
qed

lemma range_from_week: "range_from (Week k) t n = map (\<lambda>i. t + 7 * int i) [0..<n]"
proof (induction n arbitrary: t)
  case 0
  then show ?case by simp
next
  case (Suc n)
  have "map (\<lambda>i. t + 7 * int i) [0..<Suc n] = t # map (\<lambda>i. t + 7 * int (Suc i)) [0..<n]"
    by (simp add: upt_conv_Cons map_Suc_upt [symmetric] del: upt_Suc)
  also have "\<dots> = t # map (\<lambda>i. (t + 7) + 7 * int i) [0..<n]"
    by simp
  finally show ?case
    using Suc.IH [of "t + 7"] by simp
qed

lemma future_dates_daily:
  assumes "0 \<le> steps"
  shows "future_dates env ''D'' last_date steps =
           Inr (map (\<lambda>i. last_date + 1 + int i) [0..<nat steps])"
  using assms
  by (simp add: future_dates_def date_range_periods_def alias_offset_def add_days_def
      range_from_day)

lemma future_dates_weekly_guess:
  assumes "0 \<le> steps" and "weekday last_date = 6"
  shows "future_dates env ''W'' last_date steps =
           Inr (map (\<lambda>i. last_date + 7 + 7 * int i) [0..<nat steps])"
proof -
  have "weekday (last_date + 7) = 6"
    using assms(2) unfolding weekday_def by presburger
  then have "roll_forward (Week 6) (last_date + 7) = last_date + 7"
    by simp
  then show ?thesis
    using assms(1)
    by (simp add: future_dates_def date_range_periods_def alias_offset_def add_days_def
        range_from_week)
qed

lemma future_dates_length:
  assumes "0 \<le> steps" and "alias_offset freq = Some off"
    and "future_dates env freq last_date steps = Inr fd"
  shows "int (length fd) = steps"
  using assms
  by (auto simp: future_dates_def date_range_periods_def length_range_from split: if_splits)

text \<open>
  Claim C1, at an upload the code does not serve as the claim says. Ten consecutive
  Mondays are uploaded and validated; \<open>infer_freq\<close> reports \<open>W-MON\<close>, which is none of
  the aliases \<open>D\<close>, \<open>W\<close>, \<open>MS\<close> that lines 177 to 182 test, so the final \<open>else\<close> starts
  the range at the last date plus one year. The history ends on 2024-03-04; the three
  forecast dates are 2025-03-10, 2025-03-17 and 2025-03-24, not 2024-03-11, 2024-03-18
  and 2024-03-25.
\<close>

theorem weekly_forecast_starts_a_year_late:
  "validate_and_process_csv weekly_env init_service ''csv'' =
     (\<lparr>success = True, error = None, r_predictions = None, historical_data = None,
       r_model_info = Some (DataInfo 10 (YMD 2024 1 1, YMD 2024 3 4) ''Date'' ''Sales''),
       r_steps = None, plot = None\<rparr>, monday_service) \<and>
   train_model_and_predict weekly_env monday_service 3 =
     (\<lparr>success = True, error = None,
       r_predictions =
         Some \<lparr>p_dates = [YMD 2025 3 10, YMD 2025 3 17, YMD 2025 3 24],
               p_values = [0, 0, 0], lower_ci = [0, 0, 0], upper_ci = [0, 0, 0]\<rparr>,
       historical_data =
         Some \<lparr>h_dates =
                 [YMD 2024 1 1, YMD 2024 1 8, YMD 2024 1 15, YMD 2024 1 22, YMD 2024 1 29,
                  YMD 2024 2 5, YMD 2024 2 12, YMD 2024 2 19, YMD 2024 2 26, YMD 2024 3 4],
               h_values = [10, 12, 11, 13, 12, 14, 13, 15, 14, 16]\<rparr>,
       r_model_info = Some (CustomInfo 10 ''W-MON'' (YMD 2024 3 4) ''Sales''),
       r_steps = Some 3, plot = None\<rparr>,
      monday_service\<lparr>model := Some ()\<rparr>)"
proof -
  have upload: "validate_and_process_csv weekly_env init_service ''csv'' =
     (\<lparr>success = True, error = None, r_predictions = None, historical_data = None,
       r_model_info = Some (DataInfo 10 (YMD 2024 1 1, YMD 2024 3 4) ''Date'' ''Sales''),
       r_steps = None, plot = None\<rparr>, monday_service)"
    by code_simp
  have d0: "data monday_service = Some monday_series"
    by (simp add: monday_service_def)
  have freq: "determine_freq weekly_env (map fst monday_series) = Inr ''W-MON''"
    by code_simp
  have reindexed: "asfreq weekly_env ''W-MON'' monday_series = Inr monday_series"
    by code_simp
  have fit: "sarimax_fit weekly_env (select_model (length monday_series)) monday_series = Inr ()"
    by (simp add: weekly_env_def stub_env_def)
  have fc: "forecast weekly_env () 3 = Inr [0, 0, 0]"
    by code_simp
  have ci: "conf_int weekly_env () 3 = Inr [(0, 0), (0, 0), (0, 0)]"
    by code_simp
  have ne: "monday_series \<noteq> []"
    by (simp add: monday_series_def)
  have last_date: "fst (last monday_series) = 19786"
    by (simp add: monday_series_def)
  have fd: "future_dates weekly_env ''W-MON'' (fst (last monday_series)) 3 =
              Inr [20157, 20164, 20171]"
    unfolding last_date by code_simp
  have fmt: "strftime_ymd 20157 = YMD 2025 3 10" "strftime_ymd 20164 = YMD 2025 3 17"
    "strftime_ymd 20171 = YMD 2025 3 24"
    "strftime_ymd 19786 = YMD 2024 3 4"
    "map (strftime_ymd \<circ> fst) monday_series =
       [YMD 2024 1 1, YMD 2024 1 8, YMD 2024 1 15, YMD 2024 1 22, YMD 2024 1 29,
        YMD 2024 2 5, YMD 2024 2 12, YMD 2024 2 19, YMD 2024 2 26, YMD 2024 3 4]"
    by code_simp+
  have vals: "map snd monday_series = [10, 12, 11, 13, 12, 14, 13, 15, 14, 16]"
    "length monday_series = 10"
    by (simp_all add: monday_series_def)
  note block = forecast_block_success [OF fc ci ne fd,
      of "monday_service\<lparr>data := Some monday_series, model := Some ()\<rparr>"]
  have "train_model_and_predict weekly_env monday_service 3 =
     (\<lparr>success = True, error = None,
       r_predictions =
         Some \<lparr>p_dates = [YMD 2025 3 10, YMD 2025 3 17, YMD 2025 3 24],
               p_values = [0, 0, 0], lower_ci = [0, 0, 0], upper_ci = [0, 0, 0]\<rparr>,
       historical_data =
         Some \<lparr>h_dates =
                 [YMD 2024 1 1, YMD 2024 1 8, YMD 2024 1 15, YMD 2024 1 22, YMD 2024 1 29,
                  YMD 2024 2 5, YMD 2024 2 12, YMD 2024 2 19, YMD 2024 2 26, YMD 2024 3 4],
               h_values = [10, 12, 11, 13, 12, 14, 13, 15, 14, 16]\<rparr>,
       r_model_info = Some (CustomInfo 10 ''W-MON'' (YMD 2024 3 4) ''Sales''),
       r_steps = Some 3, plot = None\<rparr>,
      monday_service\<lparr>model := Some ()\<rparr>)"
    using train_success [OF d0 freq reindexed fit block]
    by (simp add: fmt vals last_date monday_service_def)
  with upload show ?thesis by simp
qed

section \<open>Frequency inference\<close>


lemma length_filter_sort: "length (filter P (sort xs)) = length (filter P xs)"
proof -
  have "mset (filter P (sort xs)) = mset (filter P xs)"
    by simp
  then show ?thesis
    by (rule mset_eq_length)
qed

lemma length_filter_mono:
  "(\<And>x. P x \<Longrightarrow> Q x) \<Longrightarrow> length (filter P xs) \<le> length (filter Q xs)"
  by (induction xs) auto

lemma sorted_count_le:
  assumes "sorted s" and "k < length s"
  shows "Suc k \<le> length (filter (\<lambda>g. g \<le> s ! k) s)"
proof -
  have all: "filter (\<lambda>g. g \<le> s ! k) (take (Suc k) s) = take (Suc k) s"
  proof (rule filter_True, clarify)
    fix x assume "x \<in> set (take (Suc k) s)"
    then obtain i where "i < Suc k" "x = s ! i"
      using assms(2) by (auto simp: in_set_conv_nth)
    then show "x \<le> s ! k"
      using assms by (simp add: sorted_nth_mono)
  qed
  have "length (filter (\<lambda>g. g \<le> s ! k) (take (Suc k) s @ drop (Suc k) s)) \<ge> Suc k"
    using assms(2) unfolding filter_append length_append all by simp
  then show ?thesis by simp
qed

lemma sorted_count_ge:
  assumes "sorted s" and "k < length s"
  shows "length s - k \<le> length (filter (\<lambda>g. s ! k \<le> g) s)"
proof -
  have all: "filter (\<lambda>g. s ! k \<le> g) (drop k s) = drop k s"
  proof (rule filter_True, clarify)
    fix x assume "x \<in> set (drop k s)"
    then obtain i where "i < length s - k" "x = s ! (k + i)"
      by (auto simp: in_set_conv_nth)
    then show "s ! k \<le> x"
      using assms by (simp add: sorted_nth_mono)
  qed
  have "length (filter (\<lambda>g. s ! k \<le> g) (take k s @ drop k s)) \<ge> length s - k"
    unfolding filter_append length_append all by simp
  then show ?thesis by simp
qed

lemma median_days_splits_gaps:
  assumes "gaps \<noteq> []"
  shows "length gaps \<le> 2 * length (filter (\<lambda>g. g \<le> median_days gaps) gaps) \<and>
         length gaps \<le> 2 * length (filter (\<lambda>g. median_days gaps \<le> g) gaps)"
proof -
  let ?s = "sort gaps" and ?n = "length gaps"
  have n: "length ?s = ?n" "0 < ?n" using assms by simp_all
  have srt: "sorted ?s" by simp
  have ne: "?s \<noteq> []" using n by (metis length_0_conv less_numeral_extra(3))
  show ?thesis
  proof (cases "odd ?n")
    case True
    then have m: "median_days gaps = ?s ! (?n div 2)"
      using n ne by (simp add: median_days_def Let_def)
    have k: "?n div 2 < length ?s" using n by simp
    have "Suc (?n div 2) \<le> length (filter (\<lambda>g. g \<le> ?s ! (?n div 2)) ?s)"
      by (rule sorted_count_le [OF srt k])
    moreover have "length ?s - ?n div 2 \<le> length (filter (\<lambda>g. ?s ! (?n div 2) \<le> g) ?s)"
      by (rule sorted_count_ge [OF srt k])
    ultimately show ?thesis
      unfolding m length_filter_sort using True n by (simp add: length_filter_sort) presburger
  next
    case False
    define a where "a = ?s ! (?n div 2 - 1)"
    define b where "b = ?s ! (?n div 2)"
    have m: "median_days gaps = (a + b) div 2"
      using False n ne by (simp add: median_days_def Let_def a_def b_def)
    have ka: "?n div 2 - 1 < length ?s" and kb: "?n div 2 < length ?s"
      using n False by (simp; linarith)+
    have "a \<le> b"
      unfolding a_def b_def using srt kb by (simp add: sorted_nth_mono)
    then have am: "a \<le> (a + b) div 2" and mb: "(a + b) div 2 \<le> b"
      by linarith+
    have "Suc (?n div 2 - 1) \<le> length (filter (\<lambda>g. g \<le> a) ?s)"
      unfolding a_def by (rule sorted_count_le [OF srt ka])
    also have "\<dots> \<le> length (filter (\<lambda>g. g \<le> (a + b) div 2) ?s)"
      using am by (intro length_filter_mono) simp
    finally have le: "?n div 2 \<le> length (filter (\<lambda>g. g \<le> (a + b) div 2) gaps)"
      using n False by (simp add: length_filter_sort)
    have "length ?s - ?n div 2 \<le> length (filter (\<lambda>g. b \<le> g) ?s)"
      unfolding b_def by (rule sorted_count_ge [OF srt kb])
    also have "\<dots> \<le> length (filter (\<lambda>g. (a + b) div 2 \<le> g) ?s)"
      using mb by (intro length_filter_mono) simp
    finally have ge: "?n - ?n div 2 \<le> length (filter (\<lambda>g. (a + b) div 2 \<le> g) gaps)"
      using n by (simp add: length_filter_sort)
    show ?thesis
      unfolding m using le ge False by presburger
  qed
qed





section \<open>The bundled model\<close>

lemma predict_keeps_object: "snd (predict env self steps) = self"
  by (simp add: predict_def Let_def split: option.splits sum.splits list.splits)

lemma get_forecast_keeps_object: "snd (get_forecast env self steps) = self"
proof -
  obtain r s where p: "predict env self steps = (r, s)" by (cases "predict env self steps")
  with predict_keeps_object [of env self steps] have "s = self" by simp
  with p show ?thesis
    by (simp add: get_forecast_def split: sum.splits)
qed

lemma load_model_degraded:
  "isl model_file \<or> isl data_file \<Longrightarrow>
   load_model model_file data_file = \<lparr>arima_model = None, arima_data = None\<rparr>"
  by (auto simp: load_model_def isl_def split: sum.splits)

lemma not_loaded_predict:
  "predict env \<lparr>arima_model = None, arima_data = None\<rparr> steps =
     (Inl ''Modele non charge'', \<lparr>arima_model = None, arima_data = None\<rparr>)"
  by (simp add: predict_def)

lemma not_loaded_get_forecast:
  "get_forecast env \<lparr>arima_model = None, arima_data = None\<rparr> steps =
     (failure ''Modele non charge'', \<lparr>arima_model = None, arima_data = None\<rparr>)"
  by (simp add: get_forecast_def not_loaded_predict)

lemma not_loaded_get_forecast_with_plot:
  "get_forecast_with_plot env \<lparr>arima_model = None, arima_data = None\<rparr> steps =
     (failure ''Modele non charge'', \<lparr>arima_model = None, arima_data = None\<rparr>)"
  by (simp add: get_forecast_with_plot_def not_loaded_get_forecast failure_def)

lemma not_loaded_status:
  "get_model_status \<lparr>arima_model = None, arima_data = None\<rparr> =
     \<lparr>status_success = True, model_loaded = False,
      status_info = Some (InfoError ''Modele non charge''), status_error = None\<rparr>"
  by (simp add: get_model_status_def get_model_info_def)

text \<open>
  Claim C7. If unpickling the model or the data fails, \<open>load_model\<close> leaves the facade
  with no model; then every forecast request, with or without plot and for every number
  of steps, returns a result with \<open>success\<close> false and an error message, leaves the facade
  as it is, and the status query reports \<open>model_loaded\<close> false.
\<close>

theorem failed_load_degrades:
  assumes "isl model_file \<or> isl data_file"
  shows "get_forecast env (load_model model_file data_file) steps =
           (failure ''Modele non charge'', load_model model_file data_file) \<and>
         get_forecast_with_plot env (load_model model_file data_file) steps =
           (failure ''Modele non charge'', load_model model_file data_file) \<and>
         success (failure ''Modele non charge'') = False \<and>
         error (failure ''Modele non charge'') = Some ''Modele non charge'' \<and>
         model_loaded (get_model_status (load_model model_file data_file)) = False"
  using load_model_degraded [OF assms]
  by (simp add: not_loaded_get_forecast not_loaded_get_forecast_with_plot not_loaded_status
      failure_def)

theorem failed_load_degrades_witness:
  "get_forecast stub_env (load_model (Inl FileNotFoundError) (Inr [(0, 112)])) 12 =
     (failure ''Modele non charge'', \<lparr>arima_model = None, arima_data = None\<rparr>) \<and>
   get_forecast_with_plot stub_env (load_model (Inr ()) (Inl (OtherException ''EOFError''))) 12 =
     (failure ''Modele non charge'', \<lparr>arima_model = None, arima_data = None\<rparr>) \<and>
   model_loaded
     (get_model_status
        (load_model (Inl FileNotFoundError) (Inl FileNotFoundError) :: unit arima)) = False"
  using failed_load_degrades [of "Inl FileNotFoundError" "Inr [(0, 112)]" stub_env 12]
    failed_load_degrades [of "Inr ()" "Inl (OtherException ''EOFError'')" stub_env 12]
    failed_load_degrades [of "Inl FileNotFoundError :: load_error + unit"
      "Inl FileNotFoundError" stub_env 12]
  by (simp add: load_model_def)

section \<open>The stored series after a failed fit\<close>

text \<open>
  Claim C10. \<open>train_model_and_predict\<close> stores the reindexed, forward-filled series
  before it fits. When the fit then fails, the call returns a result with \<open>success\<close>
  false and the fitter's message, and the service keeps the reindexed series: the series
  it held before the call is not restored.
\<close>

theorem failed_fit_leaves_reindexed_series:
  assumes "data self = Some d0"
    and "determine_freq env (map fst d0) = Inr freq"
    and "asfreq env freq d0 = Inr d"
    and "sarimax_fit env (select_model (length d)) d = Inl e"
  shows "train_model_and_predict env self steps =
           (failure (''Erreur lors de l entrainement du modele: '' @ e), self\<lparr>data := Some d\<rparr>)"
  using assms by (simp add: train_model_and_predict_def)

theorem failed_fit_leaves_reindexed_series_witness:
  "train_model_and_predict failing_fit_env (init_service\<lparr>data := Some gappy_days\<rparr>) 5 =
     (failure ''Erreur lors de l entrainement du modele: LU decomposition error.'',
      init_service\<lparr>data := Some [(0, 1), (1, 2), (2, 3), (3, 3), (4, 5), (5, 6), (6, 7),
                                  (7, 8), (8, 9), (9, 10), (10, 11)]\<rparr>) \<and>
   length gappy_days = 10"
proof -
  let ?d = "[(0, 1), (1, 2), (2, 3), (3, 3), (4, 5), (5, 6), (6, 7),
             (7, 8), (8, 9), (9, 10), (10, 11)] :: series"
  have h1: "data (init_service\<lparr>data := Some gappy_days\<rparr> :: unit service) = Some gappy_days"
    by simp
  have h2: "determine_freq failing_fit_env (map fst gappy_days) = Inr ''D''"
    by code_simp
  have h3: "asfreq failing_fit_env ''D'' gappy_days = Inr ?d"
    by code_simp
  have h4: "sarimax_fit failing_fit_env (select_model (length ?d)) ?d =
              Inl ''LU decomposition error.''"
    by (simp add: failing_fit_env_def)
  have h5: "length gappy_days = 10"
    by (simp add: gappy_days_def)
  show ?thesis
    using failed_fit_leaves_reindexed_series [OF h1 h2 h3 h4, of 5] h5 by simp
qed

section \<open>Schema inference\<close>

lemma scan_columns_fst:
  "fst (scan_columns df (dc, vc)) =
     (case filter has_time_keyword (map fst df) of [] \<Rightarrow> dc | k # ks \<Rightarrow> Some (last (k # ks)))"
proof (induction df arbitrary: dc vc)
  case Nil
  then show ?case by simp
next
  case (Cons a df)
  obtain col cells where a: "a = (col, cells)" by (cases a)
  show ?case
    unfolding a using Cons.IH
    by (simp split: list.splits)
qed

lemma scan_columns_snd:
  "snd (scan_columns df (dc, vc)) =
     (case vc of
        Some v \<Rightarrow> Some v
      | None \<Rightarrow>
          (case filter (\<lambda>(col, cells). \<not> has_time_keyword col \<and> is_numeric_dtype cells) df of
             [] \<Rightarrow> None
           | (col, cells) # rest \<Rightarrow> Some col))"
proof (induction df arbitrary: dc vc)
  case Nil
  then show ?case by (simp split: option.splits)
next
  case (Cons a df)
  obtain col cells where a: "a = (col, cells)" by (cases a)
  show ?case
    unfolding a using Cons.IH
    by (simp split: list.splits option.splits)
qed

lemma identify_columns_fst:
  "fst (identify_columns df) =
     (case filter has_time_keyword (map fst df) of
        [] \<Rightarrow> fst (df ! 0)
      | k # ks \<Rightarrow> last (k # ks))"
proof -
  obtain dc vc where sc: "scan_columns df (None, None) = (dc, vc)"
    by (cases "scan_columns df (None, None)")
  have "dc = (case filter has_time_keyword (map fst df) of
                [] \<Rightarrow> None | k # ks \<Rightarrow> Some (last (k # ks)))"
    using scan_columns_fst [of df None None] sc by simp
  then show ?thesis
    by (simp add: identify_columns_def sc split: list.splits)
qed

lemma identify_columns_snd:
  "snd (identify_columns df) =
     (case filter (\<lambda>(col, cells). \<not> has_time_keyword col \<and> is_numeric_dtype cells) df of
        [] \<Rightarrow> fst (df ! 1)
      | (col, cells) # others \<Rightarrow> col)"
proof -
  obtain dc vc where sc: "scan_columns df (None, None) = (dc, vc)"
    by (cases "scan_columns df (None, None)")
  have "vc = (case filter (\<lambda>(col, cells). \<not> has_time_keyword col \<and> is_numeric_dtype cells) df of
                [] \<Rightarrow> None | (col, cells) # others \<Rightarrow> Some col)"
    using scan_columns_snd [of df None None] sc by simp
  then show ?thesis
    by (simp add: identify_columns_def sc split: list.splits)
qed

lemma no_keyword_filter:
  "list_all (\<lambda>(col, cells). \<not> has_time_keyword col) df \<Longrightarrow>
   filter has_time_keyword (map fst df) = []"
  by (induction df) auto

text \<open>
  Claim C4, as the code has it. For a frame whose first two columns are \<open>c1\<close> and \<open>c2\<close>:
  when some column name contains one of the keywords date, time, month, year, day
  (case-insensitively) the time column is such a column, and otherwise it is \<open>c1\<close>; the
  value column is the first column that is all-numeric and has no keyword in its name,
  and \<open>c2\<close> when there is no such column; in particular, when \<open>c1\<close> has a keyword in its
  name or is not numeric, \<open>c2\<close> is numeric, and no column but \<open>c1\<close> has a keyword in its
  name, exactly \<open>c1\<close> and \<open>c2\<close> are selected.
\<close>

theorem identify_columns_amended:
  assumes "df = (c1, cells1) # (c2, cells2) # rest"
  shows "(if list_ex has_time_keyword (map fst df)
          then has_time_keyword (fst (identify_columns df)) \<and>
               fst (identify_columns df) \<in> set (map fst df)
          else fst (identify_columns df) = c1) \<and>
         snd (identify_columns df) =
           (case filter (\<lambda>(col, cells). \<not> has_time_keyword col \<and> is_numeric_dtype cells) df of
              [] \<Rightarrow> c2
            | (col, cells) # others \<Rightarrow> col) \<and>
         ((has_time_keyword c1 \<or> \<not> is_numeric_dtype cells1) \<and> is_numeric_dtype cells2 \<and>
          list_all (\<lambda>(col, cells). \<not> has_time_keyword col) ((c2, cells2) # rest)
          \<longrightarrow> identify_columns df = (c1, c2))"
proof (intro conjI impI)
  let ?ks = "filter has_time_keyword (map fst df)"
  show "if list_ex has_time_keyword (map fst df)
        then has_time_keyword (fst (identify_columns df)) \<and>
             fst (identify_columns df) \<in> set (map fst df)
        else fst (identify_columns df) = c1"
  proof (cases ?ks)
    case Nil
    then have "\<not> list_ex has_time_keyword (map fst df)"
      by (simp add: list_ex_iff filter_empty_conv)
    moreover have "fst (identify_columns df) = c1"
      using Nil assms by (simp add: identify_columns_fst)
    ultimately show ?thesis by simp
  next
    case (Cons k ks)
    then have "fst (identify_columns df) = last ?ks"
      by (simp add: identify_columns_fst)
    moreover have "last ?ks \<in> set ?ks"
      using Cons by (metis last_in_set list.distinct(1))
    ultimately have "has_time_keyword (fst (identify_columns df)) \<and>
                     fst (identify_columns df) \<in> set (map fst df)"
      by auto
    moreover have "list_ex has_time_keyword (map fst df)"
      using Cons by (metis filter_empty_conv list.distinct(1) list_ex_iff)
    ultimately show ?thesis by simp
  qed
next
  show "snd (identify_columns df) =
          (case filter (\<lambda>(col, cells). \<not> has_time_keyword col \<and> is_numeric_dtype cells) df of
             [] \<Rightarrow> c2
           | (col, cells) # others \<Rightarrow> col)"
    using assms by (simp add: identify_columns_snd split: list.splits)
next
  assume h: "(has_time_keyword c1 \<or> \<not> is_numeric_dtype cells1) \<and> is_numeric_dtype cells2 \<and>
             list_all (\<lambda>(col, cells). \<not> has_time_keyword col) ((c2, cells2) # rest)"
  then have nk: "filter has_time_keyword (map fst ((c2, cells2) # rest)) = []"
    by (rule_tac no_keyword_filter) simp
  have nk2: "\<not> has_time_keyword c2" using h by simp
  have f: "fst (identify_columns df) = c1"
    using nk assms by (simp add: identify_columns_fst split: if_splits)
  have s: "snd (identify_columns df) = c2"
    using h nk2 assms by (auto simp: identify_columns_snd)
  show "identify_columns df = (c1, c2)"
    using f s by (simp add: prod_eq_iff)
qed

theorem identify_columns_amended_witness:
  "identify_columns weekly_frame = (''Date'', ''Sales'')"
proof -
  have df: "weekly_frame =
              (''Date'', map (Text \<circ> fst) mondays) #
              (''Sales'', map Num [10, 12, 11, 13, 12, 14, 13, 15, 14, 16]) # []"
    by (simp add: weekly_frame_def)
  have k: "has_time_keyword ''Date''" by code_simp
  have n: "is_numeric_dtype (map Num [10, 12, 11, 13, 12, 14, 13, 15, 14, 16])"
    by (simp add: is_numeric_dtype_def)
  have o: "list_all (\<lambda>(col, cells). \<not> has_time_keyword col)
             [(''Sales'', map Num [10, 12, 11, 13, 12, 14, 13, 15, 14, 16])]"
    by code_simp
  show ?thesis
    using identify_columns_amended [OF df] k n o by blast
qed

text \<open>
  The claim as the specification states it fails twice. With the columns \<open>Date\<close> (dates)
  and \<open>Holiday_Sales\<close> (numbers) and ten rows, both selected columns are the second
  one, because its name contains the keyword day. With the columns \<open>Date\<close>, \<open>Year\<close> and
  \<open>Sales\<close>, the first all-numeric column is \<open>Year\<close>, and the value column is \<open>Sales\<close>:
  the numeric test is not made on a column whose name has a keyword.
\<close>

theorem holiday_sales_counterexample:
  "shape1 holiday_frame = 2 \<and> shape0 holiday_frame = 10 \<and>
   fst (holiday_frame ! 0) = ''Date'' \<and>
   to_datetime weekly_env (snd (holiday_frame ! 0)) = Some (map (Some \<circ> snd) mondays) \<and>
   fst (holiday_frame ! 1) = ''Holiday_Sales'' \<and>
   is_numeric_dtype (snd (holiday_frame ! 1)) \<and>
   identify_columns holiday_frame = (''Holiday_Sales'', ''Holiday_Sales'') \<and>
   map fst (filter (\<lambda>(col, cells). is_numeric_dtype cells) year_frame) = [''Year'', ''Sales''] \<and>
   identify_columns year_frame = (''Year'', ''Sales'')"
  by code_simp

section \<open>Upload validation\<close>

lemma length_sort_index: "length (sort_index env d) = length d"
  by (auto simp: sort_index_def Let_def dest: mset_eq_length)

lemma sort_index_fit_irrelevant:
  "sort_index (env\<lparr>sarimax_fit := g\<rparr>) d = sort_index env d"
  by (simp add: sort_index_def)

lemma to_datetime_fit_irrelevant:
  "to_datetime (env\<lparr>sarimax_fit := g\<rparr>) cells = to_datetime env cells"
  by (simp add: to_datetime_def cong: cell.case_cong)

lemma to_numeric_fit_irrelevant:
  "to_numeric (env\<lparr>sarimax_fit := g\<rparr>) cells = to_numeric env cells"
  by (simp add: to_numeric_def cong: cell.case_cong)

lemma convert_columns_fit_irrelevant:
  "convert_columns (env\<lparr>sarimax_fit := g\<rparr>) df dc vc = convert_columns env df dc vc"
proof -
  have "to_datetime (env\<lparr>sarimax_fit := g\<rparr>) = to_datetime env"
    "to_numeric (env\<lparr>sarimax_fit := g\<rparr>) = to_numeric env"
    by (rule ext, rule to_datetime_fit_irrelevant) (rule ext, rule to_numeric_fit_irrelevant)
  then show ?thesis
    by (simp add: convert_columns_def Let_def cong: option.case_cong)
qed

lemma validate_fit_irrelevant:
  "validate_and_process_csv (env\<lparr>sarimax_fit := g\<rparr>) self csv_content =
   validate_and_process_csv env self csv_content"
  by (simp add: validate_and_process_csv_def convert_columns_fit_irrelevant
      sort_index_fit_irrelevant cong: sum.case_cong prod.case_cong if_cong)

text \<open>
  Claim C8. A parsed table with fewer than 2 columns, or with fewer than 10 rows, or
  with fewer than 10 rows left once both columns are converted and the rows with a
  missing date or value are dropped, is rejected with a result whose \<open>success\<close> is false
  and that carries an error message. The service is left as it was (nothing is stored,
  the model slot is untouched), and the rejection does not depend on the fitter at all:
  no fit is attempted.
\<close>

theorem upload_validation_rejects:
  assumes "read_csv env csv_content = Inr df"
    and "shape1 df < 2 \<or> shape0 df < 10 \<or>
         (\<exists>rows. convert_columns env df (fst (identify_columns df)) (snd (identify_columns df))
                    = Inr rows \<and> length (dropna rows) < 10)"
  shows "\<exists>msg. validate_and_process_csv env self csv_content = (failure msg, self) \<and>
               (\<forall>g. validate_and_process_csv (env\<lparr>sarimax_fit := g\<rparr>) self csv_content =
                      (failure msg, self)) \<and>
               success (failure msg) = False \<and> error (failure msg) = Some msg"
proof -
  have "\<exists>msg. validate_and_process_csv env self csv_content = (failure msg, self)"
    using assms
    by (auto simp: validate_and_process_csv_def length_sort_index Let_def split: prod.splits)
  then show ?thesis
    by (auto simp: validate_fit_irrelevant failure_def)
qed

theorem upload_validation_rejects_witness:
  "(\<exists>msg. validate_and_process_csv (weekly_env\<lparr>read_csv := \<lambda>b. Inr one_column_frame\<rparr>)
            init_service ''csv'' = (failure msg, init_service)) \<and>
   (\<exists>msg. validate_and_process_csv (weekly_env\<lparr>read_csv := \<lambda>b. Inr eight_row_frame\<rparr>)
            init_service ''csv'' = (failure msg, init_service)) \<and>
   (\<exists>msg. validate_and_process_csv (weekly_env\<lparr>read_csv := \<lambda>b. Inr sparse_frame\<rparr>)
            init_service ''csv'' = (failure msg, init_service)) \<and>
   shape1 one_column_frame = 1 \<and>
   shape1 eight_row_frame = 2 \<and> shape0 eight_row_frame = 8 \<and>
   shape1 sparse_frame = 2 \<and> shape0 sparse_frame = 10"
proof -
  let ?e1 = "weekly_env\<lparr>read_csv := \<lambda>b. Inr one_column_frame\<rparr>"
  let ?e2 = "weekly_env\<lparr>read_csv := \<lambda>b. Inr eight_row_frame\<rparr>"
  let ?e3 = "weekly_env\<lparr>read_csv := \<lambda>b. Inr sparse_frame\<rparr>"
  have r1: "read_csv ?e1 ''csv'' = Inr one_column_frame"
    and r2: "read_csv ?e2 ''csv'' = Inr eight_row_frame"
    and r3: "read_csv ?e3 ''csv'' = Inr sparse_frame"
    by simp_all
  have s1: "shape1 one_column_frame = 1" by code_simp
  have s2: "shape1 eight_row_frame = 2" "shape0 eight_row_frame = 8" by code_simp+
  have s3: "shape1 sparse_frame = 2" "shape0 sparse_frame = 10" by code_simp+
  have ic: "identify_columns sparse_frame = (''Date'', ''Sales'')" by code_simp
  have cc: "convert_columns ?e3 sparse_frame ''Date'' ''Sales'' =
              Inr (zip (map (Some \<circ> snd) mondays)
                     [Some 10, None, Some 11, Some 13, Some 12, None, Some 13, Some 15,
                      Some 14, Some 16])"
    by code_simp
  have dn: "length (dropna (zip (map (Some \<circ> snd) mondays)
                     [Some 10, None, Some 11, Some 13, Some 12, None, Some 13, Some 15,
                      Some 14, Some (16::real)])) = 8"
    by code_simp
  have h3: "\<exists>rows. convert_columns ?e3 sparse_frame (fst (identify_columns sparse_frame))
                     (snd (identify_columns sparse_frame)) = Inr rows \<and>
                   length (dropna rows) < 10"
    using cc dn by (simp add: ic)
  have w1: "\<exists>msg. validate_and_process_csv ?e1 init_service ''csv'' = (failure msg, init_service)"
    using upload_validation_rejects [OF r1, of init_service] s1 by auto
  have w2: "\<exists>msg. validate_and_process_csv ?e2 init_service ''csv'' = (failure msg, init_service)"
    using upload_validation_rejects [OF r2, of init_service] s2 by auto
  have w3: "\<exists>msg. validate_and_process_csv ?e3 init_service ''csv'' = (failure msg, init_service)"
    using upload_validation_rejects [OF r3, of init_service] h3 by blast
  show ?thesis
    using w1 w2 w3 s1 s2 s3 by simp
qed

text \<open>What validation stores has at least ten rows.\<close>

lemma validate_stores_ten_rows:
  assumes "validate_and_process_csv env self csv_content = (r, self')" and "success r"
  shows "\<exists>d. data self' = Some d \<and> 10 \<le> length d"
  using assms
  by (auto simp: validate_and_process_csv_def failure_def Let_def
      split: sum.splits if_splits prod.splits)

section \<open>Chart rendering failures\<close>

lemma predict_success:
  assumes "arima_model self = Some m"
    and "forecast env m steps = Inr fc"
    and "conf_int env m steps = Inr ci"
    and "arima_data self = Some d"
    and "d \<noteq> []"
    and "date_range_periods env (add_months 1 (fst (last d))) steps ''MS'' = Inr fd"
  shows "predict env self steps =
           (Inr \<lparr>p_dates = map strftime_ym fd, p_values = fc,
                  lower_ci = map fst ci, upper_ci = map snd ci\<rparr>, self)"
  using assms by (cases d) (simp_all add: predict_def)

lemma bundled_plot_failure_fails_request:
  assumes "get_forecast env self steps = (result, self')"
    and "success result"
    and "r_predictions result = Some p"
    and "arima_generate_plot env self' p = Inl e"
  shows "get_forecast_with_plot env self steps = (failure e, self')"
  using assms by (simp add: get_forecast_with_plot_def)

lemma upload_plot_failure_degrades:
  assumes "1 \<le> steps" and "steps \<le> 100"
    and "train_model_and_predict env svc steps = (result, svc')"
    and "success result"
    and "r_predictions result = Some p" and "historical_data result = Some h"
    and "savefig env (h, p) = Inl e"
  shows "predict_custom_data env svc steps = (TemplateResponse (result\<lparr>plot := Some []\<rparr>), svc')"
  using assms by (simp add: predict_custom_data_def generate_plot_def)

text \<open>
  Claim C5, at a request the bundled path does not serve as the claim says. The model and
  the data are loaded and the two-step forecast succeeds, but the plotting backend raises:
  \<open>ARIMAModel.generate_plot\<close> has no handler of its own, the exception reaches the
  \<open>except\<close> of \<open>get_forecast_with_plot\<close>, and the whole request fails with \<open>success\<close>
  false. (In the upload path \<open>generate_plot\<close> returns the empty string instead, lemma
  \<open>upload_plot_failure_degrades\<close>.)
\<close>

theorem bundled_plot_failure_fails_forecast:
  "load_model (Inr ()) (Inr [(-3379, 461), (-3348, 390), (-3318, 432)]) = bundled \<and>
   get_forecast render_fail_env bundled 2 =
     (\<lparr>success = True, error = None,
       r_predictions = Some \<lparr>p_dates = [YM 1961 1, YM 1961 2], p_values = [0, 0],
                             lower_ci = [0, 0], upper_ci = [0, 0]\<rparr>,
       historical_data = Some \<lparr>h_dates = [YM 1960 10, YM 1960 11, YM 1960 12],
                               h_values = [461, 390, 432]\<rparr>,
       r_model_info = Some (BundledInfo 3 (Some (YM 1960 12))),
       r_steps = Some 2, plot = None\<rparr>, bundled) \<and>
   get_forecast_with_plot render_fail_env bundled 2 =
     (failure ''Failed to allocate bitmap'', bundled) \<and>
   success (failure ''Failed to allocate bitmap'') = False"
proof -
  let ?d = "[(-3379, 461), (-3348, 390), (-3318, 432)] :: series"
  have loaded: "load_model (Inr ()) (Inr ?d) = bundled"
    by (simp add: load_model_def bundled_def)
  have m: "arima_model bundled = Some ()" and d: "arima_data bundled = Some ?d"
    by (simp_all add: bundled_def)
  have fc: "forecast render_fail_env () 2 = Inr [0, 0]"
    by code_simp
  have ci: "conf_int render_fail_env () 2 = Inr [(0, 0), (0, 0)]"
    by code_simp
  have ne: "?d \<noteq> []" by simp
  have fd: "date_range_periods render_fail_env (add_months 1 (fst (last ?d))) 2 ''MS'' =
              Inr [-3287, -3256]"
    by code_simp
  have fmt: "strftime_ym (-3287) = YM 1961 1" "strftime_ym (-3256) = YM 1961 2"
    "strftime_ym (-3379) = YM 1960 10" "strftime_ym (-3348) = YM 1960 11"
    "strftime_ym (-3318) = YM 1960 12"
    by code_simp+
  have p: "predict render_fail_env bundled 2 =
             (Inr \<lparr>p_dates = [YM 1961 1, YM 1961 2], p_values = [0, 0],
                    lower_ci = [0, 0], upper_ci = [0, 0]\<rparr>, bundled)"
    using predict_success [OF m fc ci d ne fd] by (simp add: fmt)
  have h: "get_historical_data bundled =
             Inr \<lparr>h_dates = [YM 1960 10, YM 1960 11, YM 1960 12], h_values = [461, 390, 432]\<rparr>"
    by (simp add: get_historical_data_def bundled_def fmt)
  have i: "get_model_info bundled = Inr (BundledInfo 3 (Some (YM 1960 12)))"
    by (simp add: get_model_info_def bundled_def fmt)
  have g: "get_forecast render_fail_env bundled 2 =
     (\<lparr>success = True, error = None,
       r_predictions = Some \<lparr>p_dates = [YM 1961 1, YM 1961 2], p_values = [0, 0],
                             lower_ci = [0, 0], upper_ci = [0, 0]\<rparr>,
       historical_data = Some \<lparr>h_dates = [YM 1960 10, YM 1960 11, YM 1960 12],
                               h_values = [461, 390, 432]\<rparr>,
       r_model_info = Some (BundledInfo 3 (Some (YM 1960 12))),
       r_steps = Some 2, plot = None\<rparr>, bundled)"
    by (simp add: get_forecast_def p h i)
  have pl: "\<And>preds. arima_generate_plot render_fail_env bundled preds =
               Inl ''Failed to allocate bitmap''"
    by (simp add: arima_generate_plot_def bundled_def render_fail_env_def)
  have w: "get_forecast_with_plot render_fail_env bundled 2 =
             (failure ''Failed to allocate bitmap'', bundled)"
    by (simp add: get_forecast_with_plot_def g pl)
  show ?thesis
    using loaded g w by (simp add: failure_def)
qed

end
